theory Spec2Isabelle
  imports Complex_Main
begin

section \<open>Coordinate conversion\<close>

text \<open>
  Python floats are idealised as real numbers: every arithmetic operation is exact.
  \<^verbatim>\<open>divmod(x, y)\<close> on floats with a positive divisor returns the floored quotient (as
  a float) and the remainder; \<^verbatim>\<open>int(x)\<close> truncates towards zero.
\<close>

definition py_divmod :: "real \<Rightarrow> real \<Rightarrow> real \<times> real" where
  "py_divmod x y = (of_int \<lfloor>x / y\<rfloor>, x - of_int \<lfloor>x / y\<rfloor> * y)"

definition py_int :: "real \<Rightarrow> int" where
  "py_int x = (if x < 0 then \<lceil>x\<rceil> else \<lfloor>x\<rfloor>)"

text \<open>
  \<^verbatim>\<open>
  def deg_to_dms(deg):
      mins, secs = divmod(abs(deg) * 3600, 60)
      degs, mins = divmod(mins, 60)
      if deg < 0:
          degs = -degs
      degs, mins = int(degs), int(mins)
      hemi = 1 if degs > 0 else -1
      degs *= hemi
      return degs, mins, secs, hemi
  \<close>
\<close>

definition deg_to_dms :: "real \<Rightarrow> int \<times> int \<times> real \<times> int" where
  "deg_to_dms deg =
     (let (mins, secs) = py_divmod (\<bar>deg\<bar> * 3600) 60;
          (degs, mins) = py_divmod mins 60;
          degs = (if deg < 0 then - degs else degs);
          degs = py_int degs;
          mins = py_int mins;
          hemi = (if degs > 0 then 1 else - 1);
          degs = degs * hemi
      in (degs, mins, secs, hemi))"

text \<open>
  The recombination named by the specification (it has no counterpart in the source):
  hemisphere times (degrees + minutes/60 + seconds/3600).
\<close>

definition dms_to_decimal :: "int \<times> int \<times> real \<times> int \<Rightarrow> real" where
  "dms_to_decimal r =
     (case r of (degs, mins, secs, hemi) \<Rightarrow>
        of_int hemi * (of_int degs + of_int mins / 60 + secs / 3600))"


section \<open>Errors and time\<close>

text \<open>
  The exceptions that the modelled code can raise. \<open>ExifError\<close> stands for whatever the
  metadata library raises when it cannot decode a file.
\<close>

datatype py_error =
  ParseError | IndexError | TypeError | ValueError | AttributeError
  | FileNotFoundError | ExifError

text \<open>
  A naive \<^verbatim>\<open>datetime\<close> is represented by the number of seconds that its
  \<^verbatim>\<open>.timestamp()\<close> method returns, so that comparing two datetimes is comparing two
  reals and \<^verbatim>\<open>.timestamp()\<close> is the identity (no daylight-saving fold inside the
  period of interest). A \<^verbatim>\<open>timedelta\<close> is a number of seconds.
\<close>

type_synonym datetime = real

definition timestamp :: "datetime \<Rightarrow> real" where
  "timestamp dt = dt"

section \<open>Track loader\<close>

text \<open>
  A \<^verbatim>\<open>trkpt\<close> element of the parsed document: the texts of its nested
  \<^verbatim>\<open>time\<close> elements in document order (an empty element has no text), and its
  \<^verbatim>\<open>lon\<close> and \<^verbatim>\<open>lat\<close> attributes. A file either fails to parse or yields the
  \<^verbatim>\<open>trkpt\<close> elements in document order.
\<close>

record trkpt =
  time_elems :: "string option list"
  lon_attr :: "string option"
  lat_attr :: "string option"

datatype gpx_file = Malformed | Gpx "trkpt list"

text \<open>One row of the data frame, with the columns of the source's header.\<close>

record point =
  Time :: string
  Datetime :: datetime
  Timestamp :: real
  Latitude :: real
  Longitude :: real

text \<open>
  The body of the loop of \<^verbatim>\<open>extract_points\<close>:
  \<^verbatim>\<open>
      time = elm.findall(f".//{namespace}time")[0].text
      dt = datetime.datetime.strptime(time, "%Y-%m-%dT%H:%M:%S%z").astimezone(tz).replace(tzinfo=None)
      ts = dt.timestamp()
      lon = float(elm.get("lon"))
      lat = float(elm.get("lat"))
      point_list.append([time, dt, ts, lat, lon])
  \<close>
  The library parsers are parameters: \<open>strptime\<close> is the whole chain from the text
  to the naive local datetime (\<open>None\<close> where \<^verbatim>\<open>strptime\<close> raises ValueError), and
  \<open>py_float\<close> is \<^verbatim>\<open>float\<close> on a string (\<open>None\<close> where it raises ValueError).
  Indexing an empty list raises IndexError; \<^verbatim>\<open>strptime(None, ...)\<close> and
  \<^verbatim>\<open>float(None)\<close> raise TypeError.
\<close>

definition extract_point ::
  "(string \<Rightarrow> datetime option) \<Rightarrow> (string \<Rightarrow> real option) \<Rightarrow> trkpt \<Rightarrow> py_error + point" where
  "extract_point strptime py_float elm =
     (case time_elems elm of
        [] \<Rightarrow> Inl IndexError
      | text # _ \<Rightarrow>
          (case text of
             None \<Rightarrow> Inl TypeError
           | Some time \<Rightarrow>
               (case strptime time of
                  None \<Rightarrow> Inl ValueError
                | Some dt \<Rightarrow>
                    (case lon_attr elm of
                       None \<Rightarrow> Inl TypeError
                     | Some lon_s \<Rightarrow>
                         (case py_float lon_s of
                            None \<Rightarrow> Inl ValueError
                          | Some lon \<Rightarrow>
                              (case lat_attr elm of
                                 None \<Rightarrow> Inl TypeError
                               | Some lat_s \<Rightarrow>
                                   (case py_float lat_s of
                                      None \<Rightarrow> Inl ValueError
                                    | Some lat \<Rightarrow>
                                        Inr \<lparr>Time = time, Datetime = dt, Timestamp = timestamp dt,
                                             Latitude = lat, Longitude = lon\<rparr>)))))))"

text \<open>The loop itself: the first exception leaves the function, and no list is returned.\<close>

fun extract_loop ::
  "(string \<Rightarrow> datetime option) \<Rightarrow> (string \<Rightarrow> real option) \<Rightarrow> trkpt list \<Rightarrow> point list
     \<Rightarrow> py_error + point list" where
  "extract_loop strptime py_float [] point_list = Inr point_list"
| "extract_loop strptime py_float (elm # elms) point_list =
     (case extract_point strptime py_float elm of
        Inl e \<Rightarrow> Inl e
      | Inr p \<Rightarrow> extract_loop strptime py_float elms (point_list @ [p]))"

definition extract_points ::
  "(string \<Rightarrow> datetime option) \<Rightarrow> (string \<Rightarrow> real option) \<Rightarrow> gpx_file \<Rightarrow> py_error + point list" where
  "extract_points strptime py_float file =
     (case file of
        Malformed \<Rightarrow> Inl ParseError
      | Gpx elms \<Rightarrow> extract_loop strptime py_float elms [])"

section \<open>Photos and their metadata\<close>

text \<open>
  The metadata of a decoded photo: each attribute is present or absent (reading an
  absent attribute raises AttributeError). A file on disk is a photo or bytes that the
  metadata library cannot decode; a path with no file makes \<^verbatim>\<open>open\<close> raise
  FileNotFoundError.
\<close>

type_synonym dms = "int \<times> int \<times> real"

record exif =
  datetime_original :: "string option"
  gps_latitude :: "dms option"
  gps_longitude :: "dms option"
  gps_latitude_ref :: "string option"
  gps_longitude_ref :: "string option"

datatype disk_file = Undecodable | Photo exif

type_synonym filesystem = "string \<Rightarrow> disk_file option"

definition load_photo :: "filesystem \<Rightarrow> string \<Rightarrow> py_error + exif" where
  "load_photo fs path =
     (case fs path of
        None \<Rightarrow> Inl FileNotFoundError
      | Some Undecodable \<Rightarrow> Inl ExifError
      | Some (Photo photo) \<Rightarrow> Inr photo)"

text \<open>
  \<^verbatim>\<open>photo_has_lat_long\<close> reads the four attributes inside a \<^verbatim>\<open>try\<close> and returns
  False on the first AttributeError.
\<close>

definition photo_has_lat_long :: "exif \<Rightarrow> bool" where
  "photo_has_lat_long photo \<longleftrightarrow>
     gps_latitude photo \<noteq> None \<and> gps_longitude photo \<noteq> None \<and>
     gps_latitude_ref photo \<noteq> None \<and> gps_longitude_ref photo \<noteq> None"

definition photo_has_datetime :: "exif \<Rightarrow> bool" where
  "photo_has_datetime photo \<longleftrightarrow> datetime_original photo \<noteq> None"

text \<open>
  \<^verbatim>\<open>get_photo_datetime\<close> is called without a timezone. Every exception (the absent
  attribute, the ValueError of \<^verbatim>\<open>strptime\<close>) is caught and printed, and the function
  then returns \<^verbatim>\<open>None\<close>. The parser of the format \<^verbatim>\<open>"%Y:%m:%d %H:%M:%S"\<close> is the
  parameter \<open>strptime\<close>.
\<close>

definition get_photo_datetime :: "(string \<Rightarrow> datetime option) \<Rightarrow> exif \<Rightarrow> datetime option" where
  "get_photo_datetime strptime photo =
     (case datetime_original photo of
        None \<Rightarrow> None
      | Some s \<Rightarrow> strptime s)"

text \<open>
  \<^verbatim>\<open>get_photo_datetime(photo) + photo_date_offset\<close>, with a \<^verbatim>\<open>datetime.timedelta\<close>
  offset as the caller in this repository passes, or no offset (the default \<^verbatim>\<open>None\<close>
  of the signature): adding \<^verbatim>\<open>None\<close> on either side raises TypeError.
\<close>

definition add_offset :: "datetime option \<Rightarrow> real option \<Rightarrow> py_error + datetime" where
  "add_offset dt photo_date_offset =
     (case dt of
        None \<Rightarrow> Inl TypeError
      | Some t \<Rightarrow>
          (case photo_date_offset of
             None \<Rightarrow> Inl TypeError
           | Some d \<Rightarrow> Inr (t + d)))"

section \<open>File extensions\<close>

text \<open>
  \<^verbatim>\<open>os.path.splitext(f)[1]\<close> on a POSIX path: the extension starts at the last dot of
  the last path component, provided a character other than a dot stands before it in
  that component. \<^verbatim>\<open>str.lower\<close> is modelled on ASCII letters.
\<close>

definition splitext_ext :: "string \<Rightarrow> string" where
  "splitext_ext p =
     (let name = rev (takeWhile (\<lambda>c. c \<noteq> CHR ''/'') (rev p));
          ext = rev (takeWhile (\<lambda>c. c \<noteq> CHR ''.'') (rev name));
          stem = take (length name - length ext - 1) name
      in if List.member name CHR ''.'' \<and> list_ex (\<lambda>c. c \<noteq> CHR ''.'') stem
         then CHR ''.'' # ext else [])"

definition lower_char :: "char \<Rightarrow> char" where
  "lower_char c =
     (let n = (of_char c :: nat) in if 65 \<le> n \<and> n \<le> 90 then char_of (n + 32) else c)"

definition lower :: "string \<Rightarrow> string" where
  "lower s = map lower_char s"

section \<open>Interpolation\<close>

text \<open>
  \<^verbatim>\<open>numpy.interp(x, xp, fp)\<close> for a scalar \<open>x\<close>, after numpy's documentation and
  implementation: beyond the last sample point the last value, before the first sample
  point the first value, at a sample point its value, and between two sample points the
  line through them. numpy finds the interval by binary search and leaves the result
  open when \<open>xp\<close> is not increasing; the scan below finds the same interval whenever
  \<open>xp\<close> is sorted. Empty or unequal-length arrays raise ValueError.
\<close>

fun interp_scan :: "real \<Rightarrow> real \<times> real \<Rightarrow> (real \<times> real) list \<Rightarrow> real" where
  "interp_scan x (x0, y0) [] = y0"
| "interp_scan x (x0, y0) ((x1, y1) # rest) =
     (if x < x1
      then (if x0 = x then y0 else (y1 - y0) / (x1 - x0) * (x - x0) + y0)
      else interp_scan x (x1, y1) rest)"

definition np_interp :: "real \<Rightarrow> real list \<Rightarrow> real list \<Rightarrow> py_error + real" where
  "np_interp x xp fp =
     (if length xp = length fp
      then (case zip xp fp of
              [] \<Rightarrow> Inl ValueError
            | s # rest \<Rightarrow>
                if x > last xp then Inr (last fp)
                else if x < hd xp then Inr (hd fp)
                else Inr (interp_scan x s rest))
      else Inl ValueError)"

text \<open>
  The minimum and maximum of a column. On an empty column pandas returns a missing
  value, here \<open>None\<close>.
\<close>

definition series_min :: "real list \<Rightarrow> real option" where
  "series_min xs = (case xs of [] \<Rightarrow> None | x # rest \<Rightarrow> Some (fold min rest x))"

definition series_max :: "real list \<Rightarrow> real option" where
  "series_max xs = (case xs of [] \<Rightarrow> None | x # rest \<Rightarrow> Some (fold max rest x))"

section \<open>Tagger\<close>

text \<open>
  What the tagger prints for a photo, under the names of the specification:
  ``skipping, no time available'', ``skipping, location already exists'',
  ``skipping, time ... outside of bounds'' and ``adding location''.
\<close>

datatype outcome =
  Skipped_no_timestamp | Skipped_has_location | Skipped_out_of_bounds | Tagged

text \<open>
  \<^verbatim>\<open>hasattr(photo, "gps_latitude")\<close> and the two deletions inside
  \<^verbatim>\<open>try ... except Exception\<close>: deleting an absent attribute raises, which ends the
  \<^verbatim>\<open>try\<close> block with the deletions made so far.
\<close>

definition hasattr_gps_latitude :: "exif \<Rightarrow> bool" where
  "hasattr_gps_latitude photo = (case gps_latitude photo of None \<Rightarrow> False | Some _ \<Rightarrow> True)"

definition hasattr_gps_longitude :: "exif \<Rightarrow> bool" where
  "hasattr_gps_longitude photo = (case gps_longitude photo of None \<Rightarrow> False | Some _ \<Rightarrow> True)"

definition del_gps_latitude :: "exif \<Rightarrow> py_error + exif" where
  "del_gps_latitude photo =
     (case gps_latitude photo of
        None \<Rightarrow> Inl AttributeError
      | Some _ \<Rightarrow> Inr (photo\<lparr>gps_latitude := None\<rparr>))"

definition del_gps_longitude :: "exif \<Rightarrow> py_error + exif" where
  "del_gps_longitude photo =
     (case gps_longitude photo of
        None \<Rightarrow> Inl AttributeError
      | Some _ \<Rightarrow> Inr (photo\<lparr>gps_longitude := None\<rparr>))"

definition delete_location :: "exif \<Rightarrow> exif" where
  "delete_location photo =
     (case del_gps_latitude photo of
        Inl e \<Rightarrow> photo
      | Inr photo1 \<Rightarrow>
          (case del_gps_longitude photo1 of
             Inl e \<Rightarrow> photo1
           | Inr photo2 \<Rightarrow> photo2))"

text \<open>
  The block that writes the new location (lines 155 to 173 of the source): the optional
  deletion, then the four assignments in the source's order.
\<close>

definition remove_old_location :: "bool \<Rightarrow> exif \<Rightarrow> exif" where
  "remove_old_location overwrite photo =
     (if overwrite \<and> (hasattr_gps_latitude photo \<or> hasattr_gps_longitude photo)
      then delete_location photo else photo)"

definition set_location :: "exif \<Rightarrow> real \<Rightarrow> real \<Rightarrow> exif" where
  "set_location photo photolat photolon =
     (let (lat_d, lat_m, lat_s, lat_hemi) = deg_to_dms photolat;
          photo = photo\<lparr>gps_latitude_ref := Some (if lat_hemi = 1 then ''N'' else ''S'')\<rparr>;
          photo = photo\<lparr>gps_latitude := Some (lat_d, lat_m, lat_s)\<rparr>;
          (lon_d, lon_m, lon_s, lon_hemi) = deg_to_dms photolon;
          photo = photo\<lparr>gps_longitude_ref := Some (if lon_hemi = 1 then ''E'' else ''W'')\<rparr>;
          photo = photo\<lparr>gps_longitude := Some (lon_d, lon_m, lon_s)\<rparr>
      in photo)"

definition write_location :: "bool \<Rightarrow> exif \<Rightarrow> real \<Rightarrow> real \<Rightarrow> exif" where
  "write_location overwrite photo photolat photolon =
     set_location (remove_old_location overwrite photo) photolat photolon"

text \<open>
  The body of the loop of \<^verbatim>\<open>tag_photos\<close> for one path: an exception (\<open>Inl\<close>), or
  the file system after the photo and what was printed for it. \<open>mindt\<close> and
  \<open>maxdt\<close> are computed before the loop; comparing a datetime with the missing value
  of an empty column raises TypeError.
\<close>

definition tag_photos_body ::
  "(string \<Rightarrow> datetime option) \<Rightarrow> point list \<Rightarrow> datetime option \<Rightarrow> datetime option
     \<Rightarrow> real option \<Rightarrow> bool \<Rightarrow> filesystem \<Rightarrow> string \<Rightarrow> py_error + filesystem \<times> outcome" where
  "tag_photos_body strptime points_df mindt maxdt photo_date_offset overwrite fs photo_path =
     (case load_photo fs photo_path of
        Inl e \<Rightarrow> Inl e
      | Inr photo \<Rightarrow>
          if \<not> photo_has_datetime photo then Inr (fs, Skipped_no_timestamp)
          else if photo_has_lat_long photo \<and> \<not> overwrite then Inr (fs, Skipped_has_location)
          else
            (case add_offset (get_photo_datetime strptime photo) photo_date_offset of
               Inl e \<Rightarrow> Inl e
             | Inr photodt \<Rightarrow>
                 (case mindt of
                    None \<Rightarrow> Inl TypeError
                  | Some mn \<Rightarrow>
                      (case maxdt of
                         None \<Rightarrow> Inl TypeError
                       | Some mx \<Rightarrow>
                           if photodt < mn \<or> photodt > mx then Inr (fs, Skipped_out_of_bounds)
                           else
                             (case np_interp (timestamp photodt) (map Timestamp points_df)
                                     (map Latitude points_df) of
                                Inl e \<Rightarrow> Inl e
                              | Inr photolat \<Rightarrow>
                                  (case np_interp (timestamp photodt) (map Timestamp points_df)
                                          (map Longitude points_df) of
                                     Inl e \<Rightarrow> Inl e
                                   | Inr photolon \<Rightarrow>
                                       Inr (fs(photo_path \<mapsto>
                                              Photo (write_location overwrite photo photolat photolon)),
                                            Tagged)))))))"

text \<open>
  A run of the tagger: the file system, the outcomes printed so far in order, and the
  exception that ended the run, if any.
\<close>

record run =
  files :: filesystem
  report :: "(string \<times> outcome) list"
  raised :: "py_error option"

fun tag_photos_loop ::
  "(filesystem \<Rightarrow> string \<Rightarrow> py_error + filesystem \<times> outcome) \<Rightarrow> string list \<Rightarrow> run \<Rightarrow> run" where
  "tag_photos_loop body [] r = r"
| "tag_photos_loop body (photo_path # paths) r =
     (case body (files r) photo_path of
        Inl e \<Rightarrow> r\<lparr>raised := Some e\<rparr>
      | Inr (fs, out) \<Rightarrow>
          tag_photos_loop body paths (r\<lparr>files := fs, report := report r @ [(photo_path, out)]\<rparr>))"

definition tag_photos ::
  "(string \<Rightarrow> datetime option) \<Rightarrow> point list \<Rightarrow> string list \<Rightarrow> real option \<Rightarrow> string list \<Rightarrow> bool
     \<Rightarrow> filesystem \<Rightarrow> run" where
  "tag_photos strptime points_df photo_paths photo_date_offset valid_filetypes overwrite fs =
     (let mindt = series_min (map Datetime points_df);
          maxdt = series_max (map Datetime points_df);
          paths = filter (\<lambda>f. List.member valid_filetypes (lower (splitext_ext f))) photo_paths
      in tag_photos_loop
           (tag_photos_body strptime points_df mindt maxdt photo_date_offset overwrite)
           paths \<lparr>files = fs, report = [], raised = None\<rparr>)"

text \<open>The defaults of the signature of \<^verbatim>\<open>tag_photos\<close>.\<close>

definition default_photo_date_offset :: "real option" where
  "default_photo_date_offset = None"

definition default_valid_filetypes :: "string list" where
  "default_valid_filetypes = [''.jpg'', ''.jpeg'']"

definition default_overwrite :: bool where
  "default_overwrite = False"

section \<open>Sample inputs\<close>

text \<open>
  Concrete parsers, tracks and photos for the closed theorems below. The sample parsers
  know a few texts of the two time formats and of decimal numbers; the local timezone
  is UTC, and times are seconds since the epoch.
\<close>

definition sample_gpx_time :: "string \<Rightarrow> datetime option" where
  "sample_gpx_time s =
     (if s = ''1970-01-01T00:00:00+0000'' then Some 0
      else if s = ''1970-01-01T00:00:50+0000'' then Some 50
      else if s = ''1970-01-01T00:01:40+0000'' then Some 100
      else None)"

definition sample_float :: "string \<Rightarrow> real option" where
  "sample_float s =
     (if s = ''0.0'' then Some 0
      else if s = ''5.0'' then Some 5
      else if s = ''10.0'' then Some 10
      else if s = ''20.0'' then Some 20
      else None)"

definition sample_exif_time :: "string \<Rightarrow> datetime option" where
  "sample_exif_time s =
     (if s = ''1970:01:01 00:00:00'' then Some 0
      else if s = ''1970:01:01 00:00:50'' then Some 50
      else if s = ''1970:01:01 00:01:40'' then Some 100
      else if s = ''1970:01:01 00:05:00'' then Some 300
      else None)"

definition sample_track :: "point list" where
  "sample_track =
     [\<lparr>Time = ''1970-01-01T00:00:00+0000'', Datetime = 0, Timestamp = 0,
       Latitude = 0, Longitude = 0\<rparr>,
      \<lparr>Time = ''1970-01-01T00:01:40+0000'', Datetime = 100, Timestamp = 100,
       Latitude = 10, Longitude = 20\<rparr>]"

definition untagged_photo :: "string \<Rightarrow> exif" where
  "untagged_photo t =
     \<lparr>datetime_original = Some t, gps_latitude = None, gps_longitude = None,
      gps_latitude_ref = None, gps_longitude_ref = None\<rparr>"

definition located_photo :: "string option \<Rightarrow> exif" where
  "located_photo t =
     \<lparr>datetime_original = t, gps_latitude = Some (33, 51, 54), gps_longitude = Some (151, 12, 36),
      gps_latitude_ref = Some ''S'', gps_longitude_ref = Some ''E''\<rparr>"

section \<open>Properties of the coordinate conversion\<close>

lemma py_int_of_int: "py_int (of_int k) = k"
  by (simp add: py_int_def)

lemma py_int_minus_of_int: "py_int (- of_int k) = - k"
proof -
  have "\<lceil>- real_of_int k\<rceil> = - k" "\<lfloor>- real_of_int k\<rfloor> = - k"
    by (simp_all add: ceiling_def)
  then show ?thesis by (simp add: py_int_def)
qed

lemma floor_minutes_div_60: "\<lfloor>of_int \<lfloor>(x::real) * 60\<rfloor> / (60::real)\<rfloor> = \<lfloor>x\<rfloor>"
proof -
  have "\<lfloor>of_int \<lfloor>x * 60\<rfloor> / (60::real)\<rfloor> = \<lfloor>x * 60\<rfloor> div 60"
    using floor_divide_of_int_eq [of "\<lfloor>x * 60\<rfloor>" 60, where ?'a = real] by simp
  also have "\<dots> = \<lfloor>x * 60 / real_of_int 60\<rfloor>"
    by (rule floor_divide_real_eq_div [symmetric]) simp
  finally show ?thesis by simp
qed

lemma floor_minutes_mod_60: "\<lfloor>(x::real) * 60\<rfloor> mod 60 = \<lfloor>x * 60\<rfloor> - \<lfloor>x\<rfloor> * 60"
  using floor_minutes_div_60 [of x] floor_divide_of_int_eq [of "\<lfloor>x * 60\<rfloor>" 60, where ?'a = real]
  by (simp add: minus_div_mult_eq_mod [symmetric])

text \<open>
  What \<open>deg_to_dms\<close> computes, in closed form: whole degrees, minutes and seconds of
  the magnitude, and a hemisphere that is \<open>1\<close> only from one degree upwards, because
  it is taken from the truncated degrees.
\<close>

lemma deg_to_dms_closed_form:
  "deg_to_dms d =
     (\<lfloor>\<bar>d\<bar>\<rfloor>, \<lfloor>\<bar>d\<bar> * 60\<rfloor> mod 60, \<bar>d\<bar> * 3600 - 60 * of_int \<lfloor>\<bar>d\<bar> * 60\<rfloor>,
      if 1 \<le> d then 1 else - 1)"
proof -
  have m: "\<lfloor>\<bar>d\<bar> * 3600 / 60\<rfloor> = \<lfloor>\<bar>d\<bar> * 60\<rfloor>" by (simp add: mult.commute)
  have D: "\<lfloor>of_int \<lfloor>\<bar>d\<bar> * 60\<rfloor> / (60::real)\<rfloor> = \<lfloor>\<bar>d\<bar>\<rfloor>" by (rule floor_minutes_div_60)
  have D0: "0 \<le> \<lfloor>\<bar>d\<bar>\<rfloor>" by simp
  have md: "\<lfloor>\<bar>d\<bar> * 60\<rfloor> mod 60 = \<lfloor>\<bar>d\<bar> * 60\<rfloor> - \<lfloor>\<bar>d\<bar>\<rfloor> * 60"
    by (rule floor_minutes_mod_60)
  have pos: "0 < \<lfloor>\<bar>d\<bar>\<rfloor> \<longleftrightarrow> 1 \<le> \<bar>d\<bar>" by linarith
  have step1: "py_divmod (\<bar>d\<bar> * 3600) 60 =
      (of_int \<lfloor>\<bar>d\<bar> * 60\<rfloor>, \<bar>d\<bar> * 3600 - 60 * of_int \<lfloor>\<bar>d\<bar> * 60\<rfloor>)"
    unfolding py_divmod_def m by simp
  have step2: "py_divmod (of_int \<lfloor>\<bar>d\<bar> * 60\<rfloor>) 60 =
      (of_int \<lfloor>\<bar>d\<bar>\<rfloor>, of_int (\<lfloor>\<bar>d\<bar> * 60\<rfloor> mod 60))"
    unfolding py_divmod_def D md by simp
  show ?thesis
  proof (cases "d < 0")
    case True
    then show ?thesis
      using D0
      unfolding deg_to_dms_def step1 prod.case Let_def step2
      by (simp add: py_int_of_int py_int_minus_of_int)
  next
    case False
    then show ?thesis
      using D0 pos
      unfolding deg_to_dms_def step1 prod.case Let_def step2
      by (auto simp add: py_int_of_int py_int_minus_of_int floor_eq_iff)
  qed
qed

lemma deg_to_dms_hemisphere:
  "snd (snd (snd (deg_to_dms d))) = (if 1 \<le> d then 1 else - 1)"
  by (simp add: deg_to_dms_closed_form)

lemma deg_to_dms_components:
  "deg_to_dms d = (degs, mins, secs, hemi) \<Longrightarrow>
     0 \<le> degs \<and> 0 \<le> mins \<and> mins < 60 \<and> 0 \<le> secs \<and> secs < 60"
  unfolding deg_to_dms_closed_form by (auto simp add: mult.commute) linarith+

text \<open>
  Recombining the result gives back the input from one degree upwards and for negative
  inputs; on the degrees from 0 up to 1 it gives the input with the sign flipped.
\<close>

lemma dms_to_decimal_deg_to_dms:
  "dms_to_decimal (deg_to_dms d) = (if 1 \<le> d then d else - \<bar>d\<bar>)"
  unfolding deg_to_dms_closed_form dms_to_decimal_def prod.case floor_minutes_mod_60
  by (simp add: field_simps)

text \<open>
  Claim C1. The hemisphere is to be \<open>+1\<close> for every input that is not negative, in
  particular at 0. The code returns \<open>-1\<close> at 0 and at half a degree (30 minutes of
  arc), so that a latitude of half a degree north is written with the reference ``S''.
\<close>

theorem deg_to_dms_hemisphere_below_one_degree:
  "deg_to_dms 0 = (0, 0, 0, - 1) \<and> deg_to_dms (1 / 2) = (0, 30, 0, - 1)"
  by (simp add: deg_to_dms_def py_divmod_def py_int_def)

text \<open>
  Claim C6. Recombining the output of the conversion as hemisphere times
  (degrees + minutes/60 + seconds/3600) is to give back the input. At half a degree the
  code's output recombines to minus half a degree.
\<close>

theorem dms_round_trip_half_degree:
  "dms_to_decimal (deg_to_dms (1 / 2)) = - (1 / 2)"
  by (simp add: deg_to_dms_def py_divmod_def py_int_def dms_to_decimal_def)

section \<open>Properties of the interpolation\<close>

text \<open>
  Claim C5. On the track of the two points (time 0, latitude 0, longitude 0) and
  (time 100, latitude 10, longitude 20), the interpolation of the tagger gives
  (5, 10) at time 50, (0, 0) at time 0 and (10, 20) at time 100.
\<close>

theorem interpolation_two_point_track:
  "np_interp 50 (map Timestamp sample_track) (map Latitude sample_track) = Inr 5 \<and>
   np_interp 50 (map Timestamp sample_track) (map Longitude sample_track) = Inr 10 \<and>
   np_interp 0 (map Timestamp sample_track) (map Latitude sample_track) = Inr 0 \<and>
   np_interp 0 (map Timestamp sample_track) (map Longitude sample_track) = Inr 0 \<and>
   np_interp 100 (map Timestamp sample_track) (map Latitude sample_track) = Inr 10 \<and>
   np_interp 100 (map Timestamp sample_track) (map Longitude sample_track) = Inr 20"
  by (simp add: np_interp_def sample_track_def)

section \<open>Properties of the track loader\<close>

lemma extract_loop_acc:
  "extract_loop sp fl elms acc =
     (case extract_loop sp fl elms [] of Inl e \<Rightarrow> Inl e | Inr ps \<Rightarrow> Inr (acc @ ps))"
proof (induction elms arbitrary: acc)
  case Nil
  then show ?case by simp
next
  case (Cons elm elms)
  show ?case
  proof (cases "extract_point sp fl elm")
    case (Inl e)
    then show ?thesis by simp
  next
    case (Inr p)
    then show ?thesis
      using Cons.IH [of "acc @ [p]"] Cons.IH [of "[p]"]
      by (simp split: sum.splits)
  qed
qed

lemma extract_loop_Inr_iff:
  "extract_loop sp fl elms [] = Inr track \<longleftrightarrow> map (extract_point sp fl) elms = map Inr track"
proof (induction elms arbitrary: track)
  case Nil
  then show ?case by auto
next
  case (Cons elm elms)
  show ?case
  proof (cases "extract_point sp fl elm")
    case (Inl e)
    then show ?thesis by (cases track) auto
  next
    case (Inr p)
    then show ?thesis
      using Cons.IH extract_loop_acc [of sp fl elms "[p]"]
      by (cases track) (auto split: sum.splits)
  qed
qed

lemma extract_points_all_or_nothing:
  "extract_points sp fl (Gpx elms) = Inr track \<longleftrightarrow>
     map (extract_point sp fl) elms = map Inr track"
  by (simp add: extract_points_def extract_loop_Inr_iff)

lemma extract_point_deficient:
  "lat_attr elm = None \<or> lon_attr elm = None \<or> time_elems elm = [] \<Longrightarrow>
     isl (extract_point sp fl elm)"
  by (auto simp add: extract_point_def split: list.splits option.splits)

text \<open>
  Claim C2, as amended. The loader has no handler for a deficient point: a track point
  that lacks its latitude attribute, its longitude attribute or its timestamp child
  makes the whole load raise, and no track is returned. A track is returned only when
  every point is well-formed, and then it holds all the points in file order.
\<close>

theorem extract_points_deficient_point_fatal:
  "(extract_points strptime py_float (Gpx elms) = Inr track \<longleftrightarrow>
      map (extract_point strptime py_float) elms = map Inr track) \<and>
   (elm \<in> set elms \<and>
    (lat_attr elm = None \<or> lon_attr elm = None \<or> time_elems elm = []) \<longrightarrow>
      (\<exists>e. extract_points strptime py_float (Gpx elms) = Inl e))"
proof (intro conjI impI)
  show "extract_points strptime py_float (Gpx elms) = Inr track \<longleftrightarrow>
      map (extract_point strptime py_float) elms = map Inr track"
    by (rule extract_points_all_or_nothing)
next
  assume h: "elm \<in> set elms \<and>
    (lat_attr elm = None \<or> lon_attr elm = None \<or> time_elems elm = [])"
  show "\<exists>e. extract_points strptime py_float (Gpx elms) = Inl e"
  proof (cases "extract_points strptime py_float (Gpx elms)")
    case (Inl e)
    then show ?thesis by blast
  next
    case (Inr points)
    then have "map (extract_point strptime py_float) elms = map Inr points"
      by (simp add: extract_points_all_or_nothing)
    then have "extract_point strptime py_float elm \<in> set (map Inr points)"
      using h by (metis imageI set_map)
    then have "\<not> isl (extract_point strptime py_float elm)" by auto
    with h extract_point_deficient [of elm strptime py_float] show ?thesis by blast
  qed
qed

text \<open>
  Claim C2 as stated fails: of three points, the second without its latitude
  attribute, the loader returns no track of the two well-formed points; it raises the
  TypeError of \<^verbatim>\<open>float(None)\<close>.
\<close>

theorem extract_points_missing_lat_counterexample:
  "extract_points sample_gpx_time sample_float
     (Gpx [\<lparr>time_elems = [Some ''1970-01-01T00:00:00+0000''], lon_attr = Some ''0.0'',
             lat_attr = Some ''0.0''\<rparr>,
           \<lparr>time_elems = [Some ''1970-01-01T00:00:50+0000''], lon_attr = Some ''10.0'',
             lat_attr = None\<rparr>,
           \<lparr>time_elems = [Some ''1970-01-01T00:01:40+0000''], lon_attr = Some ''20.0'',
             lat_attr = Some ''10.0''\<rparr>])
   = Inl TypeError"
  by (simp add: extract_points_def extract_point_def sample_gpx_time_def sample_float_def)

text \<open>The amended claim C2 at a file whose second point has no timestamp child.\<close>

theorem extract_points_deficient_point_fatal_witness:
  "\<lparr>time_elems = [], lon_attr = Some ''10.0'', lat_attr = Some ''5.0''\<rparr>
     \<in> set [\<lparr>time_elems = [Some ''1970-01-01T00:00:00+0000''], lon_attr = Some ''0.0'',
               lat_attr = Some ''0.0''\<rparr>,
             \<lparr>time_elems = [], lon_attr = Some ''10.0'', lat_attr = Some ''5.0''\<rparr>] \<and>
   (\<exists>e. extract_points sample_gpx_time sample_float
     (Gpx [\<lparr>time_elems = [Some ''1970-01-01T00:00:00+0000''], lon_attr = Some ''0.0'',
             lat_attr = Some ''0.0''\<rparr>,
           \<lparr>time_elems = [], lon_attr = Some ''10.0'', lat_attr = Some ''5.0''\<rparr>]) = Inl e)"
  using extract_points_deficient_point_fatal
    [of sample_gpx_time sample_float
        "[\<lparr>time_elems = [Some ''1970-01-01T00:00:00+0000''], lon_attr = Some ''0.0'',
               lat_attr = Some ''0.0''\<rparr>,
             \<lparr>time_elems = [], lon_attr = Some ''10.0'', lat_attr = Some ''5.0''\<rparr>]"
        "[]"
        "\<lparr>time_elems = [], lon_attr = Some ''10.0'', lat_attr = Some ''5.0''\<rparr>"]
  by simp

section \<open>Properties of the tagger\<close>

subsection \<open>One photo\<close>

lemma series_min_Some: "series_min xs = Some m \<Longrightarrow> xs \<noteq> []"
  by (auto simp add: series_min_def)

lemma np_interp_total:
  "df \<noteq> [] \<Longrightarrow> \<exists>v. np_interp x (map Timestamp df) (map f df) = Inr v"
  by (cases df) (auto simp add: np_interp_def)

lemma tag_photos_body_unreadable:
  "load_photo fs path = Inl e \<Longrightarrow>
     tag_photos_body sp df mindt maxdt off ow fs path = Inl e"
  by (simp add: tag_photos_body_def)

lemma tag_photos_body_no_timestamp:
  "load_photo fs path = Inr photo \<Longrightarrow> datetime_original photo = None \<Longrightarrow>
     tag_photos_body sp df mindt maxdt off ow fs path = Inr (fs, Skipped_no_timestamp)"
  by (simp add: tag_photos_body_def photo_has_datetime_def)

lemma tag_photos_body_has_location:
  "load_photo fs path = Inr photo \<Longrightarrow> photo_has_datetime photo \<Longrightarrow>
   photo_has_lat_long photo \<Longrightarrow>
     tag_photos_body sp df mindt maxdt off False fs path = Inr (fs, Skipped_has_location)"
  by (simp add: tag_photos_body_def)

lemma tag_photos_body_unparsable:
  "load_photo fs path = Inr photo \<Longrightarrow> datetime_original photo = Some s \<Longrightarrow>
   strptime s = None \<Longrightarrow> \<not> (photo_has_lat_long photo \<and> \<not> ow) \<Longrightarrow>
     tag_photos_body strptime df mindt maxdt off ow fs path = Inl TypeError"
  by (auto simp add: tag_photos_body_def photo_has_datetime_def get_photo_datetime_def add_offset_def)

lemma tag_photos_body_no_offset:
  "load_photo fs path = Inr photo \<Longrightarrow> photo_has_datetime photo \<Longrightarrow>
   \<not> (photo_has_lat_long photo \<and> \<not> ow) \<Longrightarrow>
     tag_photos_body strptime df mindt maxdt None ow fs path = Inl TypeError"
  by (auto simp add: tag_photos_body_def add_offset_def split: option.splits)

lemma get_photo_datetime_Some:
  "get_photo_datetime sp photo = Some dt \<Longrightarrow> photo_has_datetime photo"
  by (auto simp add: get_photo_datetime_def photo_has_datetime_def split: option.splits)

lemma tag_photos_body_checked:
  assumes "load_photo fs path = Inr photo"
    and "get_photo_datetime strptime photo = Some dt"
    and "\<not> (photo_has_lat_long photo \<and> \<not> ow)"
    and "series_min (map Datetime df) = Some mn"
    and "series_max (map Datetime df) = Some mx"
  shows "\<exists>photolat photolon.
     np_interp (dt + d) (map Timestamp df) (map Latitude df) = Inr photolat \<and>
     np_interp (dt + d) (map Timestamp df) (map Longitude df) = Inr photolon \<and>
     tag_photos_body strptime df (Some mn) (Some mx) (Some d) ow fs path =
       (if dt + d < mn \<or> mx < dt + d then Inr (fs, Skipped_out_of_bounds)
        else Inr (fs(path \<mapsto> Photo (write_location ow photo photolat photolon)), Tagged))"
proof -
  have "df \<noteq> []" using assms(4) series_min_Some by fastforce
  then obtain photolat photolon where
    i: "np_interp (dt + d) (map Timestamp df) (map Latitude df) = Inr photolat"
       "np_interp (dt + d) (map Timestamp df) (map Longitude df) = Inr photolon"
    using np_interp_total by meson
  have "photo_has_datetime photo" using assms(2) by (rule get_photo_datetime_Some)
  then show ?thesis
    using assms(1,2,3) i
    by (auto simp add: tag_photos_body_def add_offset_def timestamp_def)
qed

lemma tag_photos_body_Tagged:
  assumes "tag_photos_body strptime df mindt maxdt off ow fs path = Inr (fs', Tagged)"
  shows "\<exists>photo dt d mn mx photolat photolon.
     load_photo fs path = Inr photo \<and> get_photo_datetime strptime photo = Some dt \<and>
     off = Some d \<and> mindt = Some mn \<and> maxdt = Some mx \<and> mn \<le> dt + d \<and> dt + d \<le> mx \<and>
     \<not> (photo_has_lat_long photo \<and> \<not> ow) \<and>
     fs' = fs(path \<mapsto> Photo (write_location ow photo photolat photolon))"
  using assms
  by (auto simp add: tag_photos_body_def add_offset_def
      split: sum.splits if_splits option.splits)

lemma tag_photos_body_not_Tagged:
  assumes "tag_photos_body strptime df mindt maxdt off ow fs path = Inr (fs', out)"
    and "out \<noteq> Tagged"
  shows "fs' = fs"
  using assms
  by (auto simp add: tag_photos_body_def add_offset_def
      split: sum.splits if_splits option.splits)

text \<open>
  A run over one path that passes the extension filter is the loop body on that path.
\<close>

lemma tag_photos_single:
  "List.member valid_filetypes (lower (splitext_ext p)) \<Longrightarrow>
     tag_photos strptime df [p] off valid_filetypes ow fs =
       (case tag_photos_body strptime df (series_min (map Datetime df))
               (series_max (map Datetime df)) off ow fs p of
          Inl e \<Rightarrow> \<lparr>files = fs, report = [], raised = Some e\<rparr>
        | Inr (fs', out) \<Rightarrow> \<lparr>files = fs', report = [(p, out)], raised = None\<rparr>)"
  by (simp add: tag_photos_def split: sum.splits)

subsection \<open>Timestamp bounds\<close>

text \<open>The extension filter on the sample paths.\<close>

lemma ext_a_jpg: "lower (splitext_ext ''a.jpg'') = ''.jpg''"
  by code_simp

text \<open>
  Claim C4, as amended. Location data is written to a photo only if the photo has a
  usable capture timestamp and its adjusted capture time (capture timestamp + offset)
  lies within [minimum track timestamp, maximum track timestamp] inclusive; every other
  outcome leaves the files as they were. A photo with a usable capture timestamp that
  already carries all four GPS tags while overwrite is off gets outcome
  skipped-has-location whatever its time; every other photo with a usable capture
  timestamp gets outcome skipped-out-of-bounds when its adjusted time is strictly below
  the minimum or strictly above the maximum, and is tagged otherwise, so also exactly
  at either bound.
\<close>

theorem tag_photos_body_bounds:
  "let mindt = series_min (map Datetime df);
       maxdt = series_max (map Datetime df);
       result = tag_photos_body strptime df mindt maxdt off ow fs path
   in (\<forall>fs'. result = Inr (fs', Tagged) \<longrightarrow>
         (\<exists>photo dt d mn mx.
            load_photo fs path = Inr photo \<and> get_photo_datetime strptime photo = Some dt \<and>
            off = Some d \<and> mindt = Some mn \<and> maxdt = Some mx \<and>
            mn \<le> dt + d \<and> dt + d \<le> mx)) \<and>
      (\<forall>fs' out. result = Inr (fs', out) \<and> out \<noteq> Tagged \<longrightarrow> fs' = fs) \<and>
      (\<forall>photo dt d mn mx.
         load_photo fs path = Inr photo \<and> get_photo_datetime strptime photo = Some dt \<and>
         off = Some d \<and> mindt = Some mn \<and> maxdt = Some mx \<longrightarrow>
         (if photo_has_lat_long photo \<and> \<not> ow then result = Inr (fs, Skipped_has_location)
          else if dt + d < mn \<or> mx < dt + d then result = Inr (fs, Skipped_out_of_bounds)
          else \<exists>fs'. result = Inr (fs', Tagged)))"
proof -
  define mindt where "mindt = series_min (map Datetime df)"
  define maxdt where "maxdt = series_max (map Datetime df)"
  define result where "result = tag_photos_body strptime df mindt maxdt off ow fs path"
  have a: "\<exists>photo dt d mn mx.
            load_photo fs path = Inr photo \<and> get_photo_datetime strptime photo = Some dt \<and>
            off = Some d \<and> mindt = Some mn \<and> maxdt = Some mx \<and>
            mn \<le> dt + d \<and> dt + d \<le> mx" if "result = Inr (fs', Tagged)" for fs'
    using that tag_photos_body_Tagged [of strptime df mindt maxdt off ow fs path fs']
    unfolding result_def by blast
  have b: "fs' = fs" if "result = Inr (fs', out) \<and> out \<noteq> Tagged" for fs' out
    using that tag_photos_body_not_Tagged [of strptime df mindt maxdt off ow fs path fs' out]
    unfolding result_def by blast
  have c: "if photo_has_lat_long photo \<and> \<not> ow then result = Inr (fs, Skipped_has_location)
          else if dt + d < mn \<or> mx < dt + d then result = Inr (fs, Skipped_out_of_bounds)
          else \<exists>fs'. result = Inr (fs', Tagged)"
    if h: "load_photo fs path = Inr photo \<and> get_photo_datetime strptime photo = Some dt \<and>
         off = Some d \<and> mindt = Some mn \<and> maxdt = Some mx" for photo dt d mn mx
  proof (cases "photo_has_lat_long photo \<and> \<not> ow")
    case True
    then have "\<not> ow" by simp
    then show ?thesis
      using True h tag_photos_body_has_location [of fs path photo strptime df mindt maxdt off]
        get_photo_datetime_Some [of strptime photo dt]
      unfolding result_def by simp
  next
    case False
    then show ?thesis
      using h tag_photos_body_checked [of fs path photo strptime dt ow df mn mx d]
      unfolding result_def mindt_def maxdt_def by auto
  qed
  show ?thesis
    unfolding Let_def mindt_def [symmetric] maxdt_def [symmetric] result_def [symmetric]
    using a b c by blast
qed

text \<open>
  Claim C4 as stated fails: a photo taken 300 seconds into a track that ends at
  100 seconds, with no offset, is strictly above the maximum; it carries all four GPS
  tags and overwrite is off, so its outcome is skipped-has-location, not
  skipped-out-of-bounds.
\<close>

theorem tag_photos_has_location_first_counterexample:
  "get_photo_datetime sample_exif_time (located_photo (Some ''1970:01:01 00:05:00'')) = Some 300 \<and>
   series_max (map Datetime sample_track) = Some 100 \<and>
   report (tag_photos sample_exif_time sample_track [''a.jpg''] (Some 0) default_valid_filetypes
     False [''a.jpg'' \<mapsto> Photo (located_photo (Some ''1970:01:01 00:05:00''))])
   = [(''a.jpg'', Skipped_has_location)]"
  by (simp add: tag_photos_def ext_a_jpg default_valid_filetypes_def tag_photos_body_def
      load_photo_def located_photo_def photo_has_datetime_def photo_has_lat_long_def
      get_photo_datetime_def sample_exif_time_def series_max_def sample_track_def)

text \<open>
  The amended claim C4 at two photos without GPS tags on the sample track: one taken at
  300 seconds is skipped as out of bounds, one taken exactly at the maximum of
  100 seconds is tagged.
\<close>

theorem tag_photos_body_bounds_witness:
  "tag_photos_body sample_exif_time sample_track (Some 0) (Some 100) (Some 0) False
     [''a.jpg'' \<mapsto> Photo (untagged_photo ''1970:01:01 00:05:00'')] ''a.jpg''
   = Inr ([''a.jpg'' \<mapsto> Photo (untagged_photo ''1970:01:01 00:05:00'')], Skipped_out_of_bounds) \<and>
   (\<exists>fs'. tag_photos_body sample_exif_time sample_track (Some 0) (Some 100) (Some 0) False
     [''a.jpg'' \<mapsto> Photo (untagged_photo ''1970:01:01 00:01:40'')] ''a.jpg''
   = Inr (fs', Tagged))"
proof -
  have mn: "series_min (map Datetime sample_track) = Some 0"
    and mx: "series_max (map Datetime sample_track) = Some 100"
    by (simp_all add: series_min_def series_max_def sample_track_def)
  have l: "load_photo [''a.jpg'' \<mapsto> Photo (untagged_photo t)] ''a.jpg'' = Inr (untagged_photo t)" for t
    by (simp add: load_photo_def)
  have t1: "get_photo_datetime sample_exif_time (untagged_photo ''1970:01:01 00:05:00'') = Some 300"
    and t2: "get_photo_datetime sample_exif_time (untagged_photo ''1970:01:01 00:01:40'') = Some 100"
    by (simp_all add: get_photo_datetime_def untagged_photo_def sample_exif_time_def)
  have n: "\<not> photo_has_lat_long (untagged_photo t)" for t
    by (simp add: photo_has_lat_long_def untagged_photo_def)
  show ?thesis
    using tag_photos_body_bounds [of sample_track sample_exif_time "Some 0" False
        "[''a.jpg'' \<mapsto> Photo (untagged_photo ''1970:01:01 00:05:00'')]" "''a.jpg''"]
      tag_photos_body_bounds [of sample_track sample_exif_time "Some 0" False
        "[''a.jpg'' \<mapsto> Photo (untagged_photo ''1970:01:01 00:01:40'')]" "''a.jpg''"]
    by (simp add: Let_def mn mx l t1 t2 n)
qed

subsection \<open>Failures inside the loop\<close>

lemma tag_photos_body_keeps_unreadable:
  assumes "tag_photos_body sp df mindt maxdt off ow fs q = Inr (fs', out)"
    and "load_photo fs p = Inl e"
  shows "load_photo fs' p = Inl e"
proof (cases "out = Tagged")
  case True
  with assms(1) obtain photo x where
    "load_photo fs q = Inr photo" "fs' = fs(q \<mapsto> Photo x)"
    using tag_photos_body_Tagged by blast
  with assms(2) have "q \<noteq> p" by auto
  with \<open>fs' = fs(q \<mapsto> Photo x)\<close> assms(2) show ?thesis by (simp add: load_photo_def)
next
  case False
  with assms show ?thesis using tag_photos_body_not_Tagged by blast
qed

lemma tag_photos_loop_stops:
  assumes "raised r = None"
    and "load_photo (files r) p = Inl e"
  shows "tag_photos_loop (tag_photos_body sp df mindt maxdt off ow) (ps @ p # qs) r =
     (let r1 = tag_photos_loop (tag_photos_body sp df mindt maxdt off ow) ps r
      in if raised r1 = None then r1\<lparr>raised := Some e\<rparr> else r1)"
  using assms
proof (induction ps arbitrary: r)
  case Nil
  then show ?case by (simp add: tag_photos_body_unreadable)
next
  case (Cons q ps)
  show ?case
  proof (cases "tag_photos_body sp df mindt maxdt off ow (files r) q")
    case (Inl e')
    then show ?thesis by simp
  next
    case (Inr res)
    obtain fs' out where res: "res = (fs', out)" by (cases res)
    have "load_photo fs' p = Inl e"
      using Inr res Cons.prems(2) tag_photos_body_keeps_unreadable by blast
    then show ?thesis
      using Inr res Cons.prems(1) Cons.IH [of "r\<lparr>files := fs', report := report r @ [(q, out)]\<rparr>"]
      by simp
  qed
qed

text \<open>
  Claim C3, as amended. The tagging loop has no handler around a photo: when opening or
  decoding a photo of the list fails, the exception leaves the tagger. The run is then
  the run over the photos before it, ended by that exception (or by an earlier one);
  the photos after it are never processed.
\<close>

theorem tag_photos_failure_ends_run:
  assumes "load_photo fs p = Inl e"
    and "List.member valid_filetypes (lower (splitext_ext p))"
  shows "tag_photos sp df (ps @ p # qs) off valid_filetypes ow fs =
     (let r = tag_photos sp df ps off valid_filetypes ow fs
      in if raised r = None then r\<lparr>raised := Some e\<rparr> else r)"
  using assms tag_photos_loop_stops [of "\<lparr>files = fs, report = [], raised = None\<rparr>" p e]
  by (simp add: tag_photos_def Let_def)

lemma ext_b_jpg: "lower (splitext_ext ''b.JPG'') = ''.jpg''"
  by code_simp

text \<open>
  Claim C3 as stated fails: with a first path that names no file, the run ends with
  FileNotFoundError, nothing is reported, and the second photo, which the tagger tags
  when it is run alone, is left as it was.
\<close>

theorem tag_photos_missing_file_counterexample:
  "raised (tag_photos sample_exif_time sample_track [''a.jpg'', ''b.JPG''] (Some 0)
     default_valid_filetypes False [''b.JPG'' \<mapsto> Photo (untagged_photo ''1970:01:01 00:00:50'')])
     = Some FileNotFoundError \<and>
   report (tag_photos sample_exif_time sample_track [''a.jpg'', ''b.JPG''] (Some 0)
     default_valid_filetypes False [''b.JPG'' \<mapsto> Photo (untagged_photo ''1970:01:01 00:00:50'')])
     = [] \<and>
   files (tag_photos sample_exif_time sample_track [''a.jpg'', ''b.JPG''] (Some 0)
     default_valid_filetypes False [''b.JPG'' \<mapsto> Photo (untagged_photo ''1970:01:01 00:00:50'')])
     ''b.JPG'' = Some (Photo (untagged_photo ''1970:01:01 00:00:50'')) \<and>
   report (tag_photos sample_exif_time sample_track [''b.JPG''] (Some 0)
     default_valid_filetypes False [''b.JPG'' \<mapsto> Photo (untagged_photo ''1970:01:01 00:00:50'')])
     = [(''b.JPG'', Tagged)]"
  by (simp add: tag_photos_def ext_a_jpg ext_b_jpg default_valid_filetypes_def
      tag_photos_body_def load_photo_def untagged_photo_def photo_has_datetime_def
      photo_has_lat_long_def get_photo_datetime_def sample_exif_time_def add_offset_def
      sample_track_def series_min_def series_max_def np_interp_def timestamp_def)

text \<open>
  The amended claim C3 at the same two paths.
\<close>

theorem tag_photos_failure_ends_run_witness:
  "load_photo [''b.JPG'' \<mapsto> Photo (untagged_photo ''1970:01:01 00:00:50'')] ''a.jpg''
     = Inl FileNotFoundError \<and>
   List.member default_valid_filetypes (lower (splitext_ext ''a.jpg'')) \<and>
   tag_photos sample_exif_time sample_track ([] @ ''a.jpg'' # [''b.JPG'']) (Some 0)
     default_valid_filetypes False [''b.JPG'' \<mapsto> Photo (untagged_photo ''1970:01:01 00:00:50'')]
   = \<lparr>files = [''b.JPG'' \<mapsto> Photo (untagged_photo ''1970:01:01 00:00:50'')], report = [],
      raised = Some FileNotFoundError\<rparr>"
proof -
  have 1: "load_photo [''b.JPG'' \<mapsto> Photo (untagged_photo ''1970:01:01 00:00:50'')] ''a.jpg''
     = Inl FileNotFoundError"
    by (simp add: load_photo_def)
  have 2: "List.member default_valid_filetypes (lower (splitext_ext ''a.jpg''))"
    by (simp add: ext_a_jpg default_valid_filetypes_def)
  show ?thesis
    using 1 2 tag_photos_failure_ends_run [OF 1 2, of sample_exif_time sample_track "[]"
        "[''b.JPG'']" "Some 0" False]
    by (simp add: tag_photos_def)
qed

subsection \<open>Unusable timestamps, missing offset, existing location\<close>

text \<open>
  The definitions that evaluate a run of the tagger on the sample inputs.
\<close>

lemmas run_simps = tag_photos_def ext_a_jpg default_valid_filetypes_def
      tag_photos_body_def load_photo_def untagged_photo_def photo_has_datetime_def
      photo_has_lat_long_def get_photo_datetime_def sample_exif_time_def add_offset_def
      sample_track_def series_min_def series_max_def np_interp_def timestamp_def
      default_overwrite_def default_photo_date_offset_def located_photo_def

text \<open>
  Claim C7. A photo whose capture timestamp is absent or present but unparsable is to
  get outcome skipped-no-timestamp. For an absent timestamp the code does so
  (\<open>tag_photos_body_no_timestamp\<close>). For a timestamp that does not parse,
  \<^verbatim>\<open>get_photo_datetime\<close> swallows the error and returns \<^verbatim>\<open>None\<close>, and adding the
  offset to it raises TypeError (\<open>tag_photos_body_unparsable\<close>): the run ends and no
  outcome is reported for the photo.
\<close>

theorem tag_photos_unparsable_timestamp_raises:
  "raised (tag_photos sample_exif_time sample_track [''a.jpg''] (Some 0) default_valid_filetypes
     False [''a.jpg'' \<mapsto> Photo (untagged_photo ''yesterday'')]) = Some TypeError \<and>
   report (tag_photos sample_exif_time sample_track [''a.jpg''] (Some 0) default_valid_filetypes
     False [''a.jpg'' \<mapsto> Photo (untagged_photo ''yesterday'')]) = []"
  by (simp add: run_simps)

text \<open>
  Claim C8. Calling the tagger without an offset is to behave as with a zero offset. The
  default of the signature is \<^verbatim>\<open>None\<close>, and adding it to the capture time raises
  TypeError (\<open>tag_photos_body_no_offset\<close>): the photo that a zero offset tags ends the
  run of the default call.
\<close>

theorem tag_photos_default_offset_raises:
  "raised (tag_photos sample_exif_time sample_track [''a.jpg''] default_photo_date_offset
     default_valid_filetypes default_overwrite
     [''a.jpg'' \<mapsto> Photo (untagged_photo ''1970:01:01 00:00:50'')]) = Some TypeError \<and>
   report (tag_photos sample_exif_time sample_track [''a.jpg''] default_photo_date_offset
     default_valid_filetypes default_overwrite
     [''a.jpg'' \<mapsto> Photo (untagged_photo ''1970:01:01 00:00:50'')]) = [] \<and>
   raised (tag_photos sample_exif_time sample_track [''a.jpg''] (Some 0)
     default_valid_filetypes default_overwrite
     [''a.jpg'' \<mapsto> Photo (untagged_photo ''1970:01:01 00:00:50'')]) = None \<and>
   report (tag_photos sample_exif_time sample_track [''a.jpg''] (Some 0)
     default_valid_filetypes default_overwrite
     [''a.jpg'' \<mapsto> Photo (untagged_photo ''1970:01:01 00:00:50'')]) = [(''a.jpg'', Tagged)]"
  by (simp add: run_simps)

lemma set_location_replaces:
  "set_location (photo\<lparr>gps_latitude := a, gps_longitude := b, gps_latitude_ref := c,
       gps_longitude_ref := d\<rparr>) photolat photolon = set_location photo photolat photolon"
  by (simp add: set_location_def Let_def split: prod.splits)

lemma remove_old_location_located:
  "photo_has_lat_long photo \<Longrightarrow>
     remove_old_location True photo = photo\<lparr>gps_latitude := None, gps_longitude := None\<rparr>"
  by (auto simp add: remove_old_location_def photo_has_lat_long_def hasattr_gps_latitude_def
      hasattr_gps_longitude_def delete_location_def del_gps_latitude_def del_gps_longitude_def)

lemma write_location_replaces:
  "write_location ow photo photolat photolon =
     set_location (photo\<lparr>gps_latitude := None, gps_longitude := None, gps_latitude_ref := None,
       gps_longitude_ref := None\<rparr>) photolat photolon"
  by (cases photo)
    (auto simp add: write_location_def remove_old_location_def hasattr_gps_latitude_def
      hasattr_gps_longitude_def delete_location_def del_gps_latitude_def del_gps_longitude_def
      set_location_def Let_def split: prod.splits option.splits)

text \<open>
  Claim C9, as amended. For every photo that has a capture timestamp and already
  carries all four GPS tags: with overwrite off it gets outcome skipped-has-location and
  the files are left as they were; with overwrite on, the removal step deletes the
  latitude and longitude tags and leaves the two reference tags in place, and when the
  photo is tagged (usable capture timestamp, adjusted time within the bounds) the write
  then sets all four tags, so that the photo ends with the metadata that tagging the
  photo stripped of all four GPS tags gives.
\<close>

theorem tag_photos_body_existing_location:
  assumes "load_photo fs path = Inr photo"
    and "photo_has_lat_long photo"
    and "photo_has_datetime photo"
  shows "let mindt = series_min (map Datetime df);
             maxdt = series_max (map Datetime df);
             stripped = photo\<lparr>gps_latitude := None, gps_longitude := None,
               gps_latitude_ref := None, gps_longitude_ref := None\<rparr>
         in tag_photos_body strptime df mindt maxdt off False fs path
              = Inr (fs, Skipped_has_location) \<and>
            remove_old_location True photo = photo\<lparr>gps_latitude := None, gps_longitude := None\<rparr> \<and>
            (\<forall>dt d mn mx.
               get_photo_datetime strptime photo = Some dt \<and> off = Some d \<and>
               mindt = Some mn \<and> maxdt = Some mx \<and> mn \<le> dt + d \<and> dt + d \<le> mx \<longrightarrow>
               (\<exists>photolat photolon.
                  np_interp (dt + d) (map Timestamp df) (map Latitude df) = Inr photolat \<and>
                  np_interp (dt + d) (map Timestamp df) (map Longitude df) = Inr photolon \<and>
                  tag_photos_body strptime df mindt maxdt off True fs path
                    = Inr (fs(path \<mapsto> Photo (set_location stripped photolat photolon)), Tagged)))"
proof -
  have a: "tag_photos_body strptime df mindt maxdt off False fs path
      = Inr (fs, Skipped_has_location)" for mindt maxdt
    using assms by (simp add: tag_photos_body_has_location)
  have b: "remove_old_location True photo = photo\<lparr>gps_latitude := None, gps_longitude := None\<rparr>"
    using assms(2) by (rule remove_old_location_located)
  have c: "\<exists>photolat photolon.
      np_interp (dt + d) (map Timestamp df) (map Latitude df) = Inr photolat \<and>
      np_interp (dt + d) (map Timestamp df) (map Longitude df) = Inr photolon \<and>
      tag_photos_body strptime df (series_min (map Datetime df)) (series_max (map Datetime df))
          off True fs path
        = Inr (fs(path \<mapsto> Photo (set_location
            (photo\<lparr>gps_latitude := None, gps_longitude := None,
               gps_latitude_ref := None, gps_longitude_ref := None\<rparr>) photolat photolon)), Tagged)"
    if h: "get_photo_datetime strptime photo = Some dt \<and> off = Some d \<and>
       series_min (map Datetime df) = Some mn \<and> series_max (map Datetime df) = Some mx \<and>
       mn \<le> dt + d \<and> dt + d \<le> mx" for dt d mn mx
    using h tag_photos_body_checked [of fs path photo strptime dt True df mn mx d] assms(1)
    by (auto simp add: write_location_replaces)
  show ?thesis
    unfolding Let_def using a b c by blast
qed

text \<open>
  Claim C9 as stated fails twice: a photo that carries all four GPS tags but no capture
  timestamp gets outcome skipped-no-timestamp with overwrite off, not
  skipped-has-location; and with overwrite on the removal step leaves the two reference
  tags of a located photo in place.
\<close>

theorem tag_photos_existing_location_counterexample:
  "report (tag_photos sample_exif_time sample_track [''a.jpg''] (Some 0) default_valid_filetypes
     False [''a.jpg'' \<mapsto> Photo (located_photo None)]) = [(''a.jpg'', Skipped_no_timestamp)] \<and>
   gps_latitude_ref (remove_old_location True (located_photo (Some ''1970:01:01 00:00:50'')))
     = Some ''S'' \<and>
   gps_longitude_ref (remove_old_location True (located_photo (Some ''1970:01:01 00:00:50'')))
     = Some ''E''"
  by (simp add: run_simps remove_old_location_def hasattr_gps_latitude_def
      hasattr_gps_longitude_def delete_location_def del_gps_latitude_def del_gps_longitude_def)

text \<open>
  The amended claim C9 at a located photo taken at 50 seconds on the sample track:
  skipped with overwrite off, and with overwrite on rewritten to 5 degrees north,
  10 degrees east.
\<close>

theorem tag_photos_body_existing_location_witness:
  "load_photo [''a.jpg'' \<mapsto> Photo (located_photo (Some ''1970:01:01 00:00:50''))] ''a.jpg''
     = Inr (located_photo (Some ''1970:01:01 00:00:50'')) \<and>
   photo_has_lat_long (located_photo (Some ''1970:01:01 00:00:50'')) \<and>
   photo_has_datetime (located_photo (Some ''1970:01:01 00:00:50'')) \<and>
   tag_photos_body sample_exif_time sample_track (Some 0) (Some 100) (Some 0) False
     [''a.jpg'' \<mapsto> Photo (located_photo (Some ''1970:01:01 00:00:50''))] ''a.jpg''
     = Inr ([''a.jpg'' \<mapsto> Photo (located_photo (Some ''1970:01:01 00:00:50''))],
            Skipped_has_location) \<and>
   tag_photos_body sample_exif_time sample_track (Some 0) (Some 100) (Some 0) True
     [''a.jpg'' \<mapsto> Photo (located_photo (Some ''1970:01:01 00:00:50''))] ''a.jpg''
     = Inr ([''a.jpg'' \<mapsto> Photo \<lparr>datetime_original = Some ''1970:01:01 00:00:50'',
               gps_latitude = Some (5, 0, 0), gps_longitude = Some (10, 0, 0),
               gps_latitude_ref = Some ''N'', gps_longitude_ref = Some ''E''\<rparr>], Tagged)"
proof -
  have l: "load_photo [''a.jpg'' \<mapsto> Photo (located_photo (Some ''1970:01:01 00:00:50''))] ''a.jpg''
     = Inr (located_photo (Some ''1970:01:01 00:00:50''))"
    by (simp add: load_photo_def)
  have g: "photo_has_lat_long (located_photo (Some ''1970:01:01 00:00:50''))"
    by (simp add: photo_has_lat_long_def located_photo_def)
  have t: "photo_has_datetime (located_photo (Some ''1970:01:01 00:00:50''))"
    by (simp add: photo_has_datetime_def located_photo_def)
  have mn: "series_min (map Datetime sample_track) = Some 0"
    and mx: "series_max (map Datetime sample_track) = Some 100"
    by (simp_all add: series_min_def series_max_def sample_track_def)
  have dt: "get_photo_datetime sample_exif_time (located_photo (Some ''1970:01:01 00:00:50''))
      = Some 50"
    by (simp add: get_photo_datetime_def located_photo_def sample_exif_time_def)
  have i: "np_interp 50 (map Timestamp sample_track) (map Latitude sample_track) = Inr 5"
    "np_interp 50 (map Timestamp sample_track) (map Longitude sample_track) = Inr 10"
    by (simp_all add: np_interp_def sample_track_def)
  have d: "deg_to_dms 5 = (5, 0, 0, 1)" "deg_to_dms 10 = (10, 0, 0, 1)"
    by (simp_all add: deg_to_dms_def py_divmod_def py_int_def)
  note inst = tag_photos_body_existing_location [OF l g t, of sample_track sample_exif_time "Some 0"]
  from inst have a: "tag_photos_body sample_exif_time sample_track (Some 0) (Some 100) (Some 0) False
     [''a.jpg'' \<mapsto> Photo (located_photo (Some ''1970:01:01 00:00:50''))] ''a.jpg''
     = Inr ([''a.jpg'' \<mapsto> Photo (located_photo (Some ''1970:01:01 00:00:50''))],
            Skipped_has_location)"
    by (simp add: Let_def mn mx)
  from inst have b: "tag_photos_body sample_exif_time sample_track (Some 0) (Some 100) (Some 0) True
     [''a.jpg'' \<mapsto> Photo (located_photo (Some ''1970:01:01 00:00:50''))] ''a.jpg''
     = Inr ([''a.jpg'' \<mapsto> Photo (set_location
           ((located_photo (Some ''1970:01:01 00:00:50''))\<lparr>gps_latitude := None,
              gps_longitude := None, gps_latitude_ref := None, gps_longitude_ref := None\<rparr>)
           5 10)], Tagged)"
    by (simp add: Let_def mn mx dt i)
  show ?thesis
    using l g t a b by (simp add: d set_location_def located_photo_def)
qed

subsection \<open>What counts as an existing location\<close>

lemma tag_photos_body_never_has_location:
  "\<not> photo_has_lat_long photo \<Longrightarrow> load_photo fs path = Inr photo \<Longrightarrow>
     tag_photos_body strptime df mindt maxdt off ow fs path \<noteq> Inr (fs', Skipped_has_location)"
  by (auto simp add: tag_photos_body_def split: sum.splits option.splits if_splits)

text \<open>
  Claim C10. A photo counts as having a location exactly when all four GPS attributes
  (latitude, longitude and the two references) can be read. A photo that lacks at least
  one of them counts as having none: with overwrite off it is never skipped as
  has-location, and with a usable capture timestamp whose adjusted time is within the
  bounds it is tagged.
\<close>

theorem photo_has_lat_long_all_four:
  "(photo_has_lat_long photo \<longleftrightarrow>
      gps_latitude photo \<noteq> None \<and> gps_longitude photo \<noteq> None \<and>
      gps_latitude_ref photo \<noteq> None \<and> gps_longitude_ref photo \<noteq> None) \<and>
   (load_photo fs path = Inr photo \<and>
    (gps_latitude photo = None \<or> gps_longitude photo = None \<or>
     gps_latitude_ref photo = None \<or> gps_longitude_ref photo = None) \<longrightarrow>
      \<not> photo_has_lat_long photo \<and>
      (\<forall>mindt maxdt fs'. tag_photos_body strptime df mindt maxdt off False fs path
          \<noteq> Inr (fs', Skipped_has_location)) \<and>
      (\<forall>dt d mn mx.
         get_photo_datetime strptime photo = Some dt \<and> off = Some d \<and>
         series_min (map Datetime df) = Some mn \<and> series_max (map Datetime df) = Some mx \<and>
         mn \<le> dt + d \<and> dt + d \<le> mx \<longrightarrow>
         (\<exists>photolat photolon.
            np_interp (dt + d) (map Timestamp df) (map Latitude df) = Inr photolat \<and>
            np_interp (dt + d) (map Timestamp df) (map Longitude df) = Inr photolon \<and>
            tag_photos_body strptime df (Some mn) (Some mx) off False fs path
              = Inr (fs(path \<mapsto> Photo (set_location photo photolat photolon)), Tagged))))"
proof (intro conjI impI)
  show "photo_has_lat_long photo \<longleftrightarrow>
      gps_latitude photo \<noteq> None \<and> gps_longitude photo \<noteq> None \<and>
      gps_latitude_ref photo \<noteq> None \<and> gps_longitude_ref photo \<noteq> None"
    by (simp add: photo_has_lat_long_def)
next
  assume h: "load_photo fs path = Inr photo \<and>
    (gps_latitude photo = None \<or> gps_longitude photo = None \<or>
     gps_latitude_ref photo = None \<or> gps_longitude_ref photo = None)"
  then show n: "\<not> photo_has_lat_long photo"
    by (auto simp add: photo_has_lat_long_def)
  from h n show "\<forall>mindt maxdt fs'. tag_photos_body strptime df mindt maxdt off False fs path
          \<noteq> Inr (fs', Skipped_has_location)"
    using tag_photos_body_never_has_location by blast
  have w: "write_location False photo photolat photolon = set_location photo photolat photolon"
    for photolat photolon
    by (simp add: write_location_def remove_old_location_def)
  show "\<forall>dt d mn mx.
         get_photo_datetime strptime photo = Some dt \<and> off = Some d \<and>
         series_min (map Datetime df) = Some mn \<and> series_max (map Datetime df) = Some mx \<and>
         mn \<le> dt + d \<and> dt + d \<le> mx \<longrightarrow>
         (\<exists>photolat photolon.
            np_interp (dt + d) (map Timestamp df) (map Latitude df) = Inr photolat \<and>
            np_interp (dt + d) (map Timestamp df) (map Longitude df) = Inr photolon \<and>
            tag_photos_body strptime df (Some mn) (Some mx) off False fs path
              = Inr (fs(path \<mapsto> Photo (set_location photo photolat photolon)), Tagged))"
  proof (intro allI impI)
    fix dt d mn mx
    assume u: "get_photo_datetime strptime photo = Some dt \<and> off = Some d \<and>
         series_min (map Datetime df) = Some mn \<and> series_max (map Datetime df) = Some mx \<and>
         mn \<le> dt + d \<and> dt + d \<le> mx"
    then show "\<exists>photolat photolon.
            np_interp (dt + d) (map Timestamp df) (map Latitude df) = Inr photolat \<and>
            np_interp (dt + d) (map Timestamp df) (map Longitude df) = Inr photolon \<and>
            tag_photos_body strptime df (Some mn) (Some mx) off False fs path
              = Inr (fs(path \<mapsto> Photo (set_location photo photolat photolon)), Tagged)"
      using h n tag_photos_body_checked [of fs path photo strptime dt False df mn mx d]
      by (auto simp add: w)
  qed
qed

text \<open>
  Claim C10 at a photo that carries a latitude and its reference but no longitude,
  taken at 50 seconds on the sample track: it is tagged with overwrite off.
\<close>

theorem photo_has_lat_long_all_four_witness:
  "\<not> photo_has_lat_long ((untagged_photo ''1970:01:01 00:00:50'')
       \<lparr>gps_latitude := Some (33, 51, 54), gps_latitude_ref := Some ''S''\<rparr>) \<and>
   tag_photos_body sample_exif_time sample_track (Some 0) (Some 100) (Some 0) False
     [''a.jpg'' \<mapsto> Photo ((untagged_photo ''1970:01:01 00:00:50'')
       \<lparr>gps_latitude := Some (33, 51, 54), gps_latitude_ref := Some ''S''\<rparr>)] ''a.jpg''
     = Inr ([''a.jpg'' \<mapsto> Photo \<lparr>datetime_original = Some ''1970:01:01 00:00:50'',
               gps_latitude = Some (5, 0, 0), gps_longitude = Some (10, 0, 0),
               gps_latitude_ref = Some ''N'', gps_longitude_ref = Some ''E''\<rparr>], Tagged)"
proof -
  let ?photo = "(untagged_photo ''1970:01:01 00:00:50'')
       \<lparr>gps_latitude := Some (33, 51, 54), gps_latitude_ref := Some ''S''\<rparr>"
  have l: "load_photo [''a.jpg'' \<mapsto> Photo ?photo] ''a.jpg'' = Inr ?photo"
    by (simp add: load_photo_def)
  have p: "gps_longitude ?photo = None"
    by (simp add: untagged_photo_def)
  have mn: "series_min (map Datetime sample_track) = Some 0"
    and mx: "series_max (map Datetime sample_track) = Some 100"
    by (simp_all add: series_min_def series_max_def sample_track_def)
  have dt: "get_photo_datetime sample_exif_time ?photo = Some 50"
    by (simp add: get_photo_datetime_def untagged_photo_def sample_exif_time_def)
  have i: "np_interp 50 (map Timestamp sample_track) (map Latitude sample_track) = Inr 5"
    "np_interp 50 (map Timestamp sample_track) (map Longitude sample_track) = Inr 10"
    by (simp_all add: np_interp_def sample_track_def)
  have d: "deg_to_dms 5 = (5, 0, 0, 1)" "deg_to_dms 10 = (10, 0, 0, 1)"
    by (simp_all add: deg_to_dms_def py_divmod_def py_int_def)
  note inst = photo_has_lat_long_all_four [of ?photo "[''a.jpg'' \<mapsto> Photo ?photo]" "''a.jpg''"
      sample_exif_time sample_track "Some 0"]
  from inst l p have a: "\<not> photo_has_lat_long ?photo"
    by blast
  from inst l p have "\<forall>dt d mn mx.
         get_photo_datetime sample_exif_time ?photo = Some dt \<and> Some 0 = Some d \<and>
         series_min (map Datetime sample_track) = Some mn \<and> series_max (map Datetime sample_track) = Some mx \<and>
         mn \<le> dt + d \<and> dt + d \<le> mx \<longrightarrow>
         (\<exists>photolat photolon.
            np_interp (dt + d) (map Timestamp sample_track) (map Latitude sample_track) = Inr photolat \<and>
            np_interp (dt + d) (map Timestamp sample_track) (map Longitude sample_track) = Inr photolon \<and>
            tag_photos_body sample_exif_time sample_track (Some mn) (Some mx) (Some 0) False [''a.jpg'' \<mapsto> Photo ?photo] ''a.jpg''
              = Inr ([''a.jpg'' \<mapsto> Photo ?photo](''a.jpg'' \<mapsto> Photo (set_location ?photo photolat photolon)), Tagged))"
    by blast
  then have b: "tag_photos_body sample_exif_time sample_track (Some 0) (Some 100) (Some 0) False
      [''a.jpg'' \<mapsto> Photo ?photo] ''a.jpg''
      = Inr ([''a.jpg'' \<mapsto> Photo (set_location ?photo 5 10)], Tagged)"
    by (simp add: mn mx dt i)
  show ?thesis
    using a b by (simp add: d set_location_def untagged_photo_def)
qed

end
